theory Spec2Isabelle
  imports Main
begin

section \<open>AttachedDatabase\<close>

text \<open>
  The code of \<open>AttachedDatabase\<close> stands in the file common\_subexpression.hpp of the
  sources, after the class \<open>CommonSubExpression\<close>.
\<close>

text \<open>
  A C++ exception is a value; \<open>catch (...)\<close> catches every one of them, so the payload is
  only a message.
\<close>

datatype exn = Exception string

text \<open>
  The declaration of \<open>AccessMode\<close> is outside the sources at hand; the constructor
  only asks whether the mode is \<open>READ_ONLY\<close>.
\<close>

datatype access_mode = READ_ONLY | READ_WRITE

record db_config_options =
  database_path :: string
  access_mode :: access_mode
  checkpoint_on_shutdown :: bool

text \<open>The calls an AttachedDatabase makes into its storage manager and catalog, in order.\<close>

datatype call =
    Call_Catalog_Initialize bool
  | Call_Storage_Initialize
  | Call_InMemory
  | Call_CreateCheckpoint bool

text \<open>
  The collaborators whose code is outside the sources at hand (FileSystem, StorageManager,
  Catalog, TransactionManager) are parameters: \<open>'s\<close> is the state of the storage manager,
  \<open>'c\<close> of the catalog, \<open>'t\<close> of the transaction manager. A call that can throw returns
  its outcome together with the state it leaves behind.
  \<open>InMemory\<close> answers with a plain bool, as the StorageManager interface has it;
  \<open>CreateCheckpoint\<close> and the two \<open>Initialize\<close> calls can fail.
\<close>

record ('s, 'c, 't) collaborators =
  ExtractBaseName :: "string \<Rightarrow> string"
  new_SingleFileStorageManager :: "string \<Rightarrow> bool \<Rightarrow> 's"
  new_Catalog :: 'c
  new_TransactionManager :: 't
  InMemory :: "'s \<Rightarrow> bool"
  CreateCheckpoint :: "bool \<Rightarrow> 's \<Rightarrow> (exn + unit) \<times> 's"
  Storage_Initialize :: "'s \<Rightarrow> (exn + unit) \<times> 's"
  Catalog_Initialize :: "bool \<Rightarrow> 'c \<Rightarrow> (exn + unit) \<times> 'c"

record ('s, 'c, 't) attached_database =
  db :: db_config_options
  name :: string
  storage :: 's
  catalog :: 'c
  transaction_manager :: 't
  calls :: "call list"

definition ExtractDatabaseName :: "('s, 'c, 't) collaborators \<Rightarrow> string \<Rightarrow> string" where
  "ExtractDatabaseName K dbpath =
     (if dbpath = [] \<or> dbpath = '':memory:'' then ''memory''
      else ExtractBaseName K dbpath)"

definition AttachedDatabase ::
  "('s, 'c, 't) collaborators \<Rightarrow> db_config_options \<Rightarrow> ('s, 'c, 't) attached_database" where
  "AttachedDatabase K config =
     \<lparr> db = config,
       name = ExtractDatabaseName K (database_path config),
       storage = new_SingleFileStorageManager K (database_path config)
                   (access_mode config = READ_ONLY),
       catalog = new_Catalog K,
       transaction_manager = new_TransactionManager K,
       calls = [] \<rparr>"

text \<open>
  The body of the \<open>try\<close> block of the destructor: its outcome is what would leave the block,
  a normal completion (\<open>Inr ()\<close>, also for the early \<open>return\<close>) or a thrown exception.
\<close>

definition destructor_try ::
  "('s, 'c, 't) collaborators \<Rightarrow> ('s, 'c, 't) attached_database
     \<Rightarrow> (exn + unit) \<times> ('s, 'c, 't) attached_database" where
  "destructor_try K adb =
     (let adb1 = adb\<lparr>calls := calls adb @ [Call_InMemory]\<rparr> in
      if \<not> InMemory K (storage adb1) then
        (if \<not> checkpoint_on_shutdown (db adb1) then (Inr (), adb1)
         else
           (case CreateCheckpoint K True (storage adb1) of
              (r, s') \<Rightarrow>
                (r, adb1\<lparr>storage := s', calls := calls adb1 @ [Call_CreateCheckpoint True]\<rparr>)))
      else (Inr (), adb1))"

text \<open>
  \<open>~AttachedDatabase\<close>; \<open>uncaught\<close> is the value of \<open>Exception::UncaughtException()\<close>.
  The handler \<open>catch (...) {}\<close> turns every exception of the block into a normal completion.
\<close>

definition AttachedDatabase_destructor ::
  "('s, 'c, 't) collaborators \<Rightarrow> bool \<Rightarrow> ('s, 'c, 't) attached_database
     \<Rightarrow> (exn + unit) \<times> ('s, 'c, 't) attached_database" where
  "AttachedDatabase_destructor K uncaught adb =
     (if uncaught then (Inr (), adb)
      else
        (case destructor_try K adb of
           (Inl e, adb') \<Rightarrow> (Inr (), adb')
         | (Inr u, adb') \<Rightarrow> (Inr u, adb')))"


fun is_checkpoint :: "call \<Rightarrow> bool" where
  "is_checkpoint (Call_CreateCheckpoint f) = True"
| "is_checkpoint _ = False"

text \<open>
  A concrete set of collaborators for evaluation: the storage manager is a pair of its
  in-memory flag and the number of checkpoints written, the catalog a flag that it was
  loaded; \<open>fail_checkpoint\<close> and \<open>fail_catalog\<close> make the respective call throw.
\<close>

definition test_collaborators :: "bool \<Rightarrow> bool \<Rightarrow> (bool \<times> nat, bool, unit) collaborators" where
  "test_collaborators fail_checkpoint fail_catalog =
     \<lparr> ExtractBaseName = takeWhile (\<lambda>c. c \<noteq> CHR ''.''),
       new_SingleFileStorageManager = (\<lambda>path ro. (path = [] \<or> path = '':memory:'', 0)),
       new_Catalog = False,
       new_TransactionManager = (),
       InMemory = fst,
       CreateCheckpoint = (\<lambda>force s.
          if fail_checkpoint then (Inl (Exception ''checkpoint''), s)
          else (Inr (), (fst s, Suc (snd s)))),
       Storage_Initialize = (\<lambda>s. (Inr (), s)),
       Catalog_Initialize = (\<lambda>b c.
          if fail_catalog then (Inl (Exception ''catalog''), c) else (Inr (), True)) \<rparr>"

definition test_config :: "string \<Rightarrow> bool \<Rightarrow> db_config_options" where
  "test_config path cp =
     \<lparr> database_path = path, access_mode = READ_WRITE, checkpoint_on_shutdown = cp \<rparr>"

section \<open>CommonSubExpression (common\_subexpression.hpp)\<close>

text \<open>
  \<open>IsScalar\<close> and \<open>IsFoldable\<close> are virtual methods of \<open>Expression\<close>. The other
  expression classes are outside the sources at hand; \<open>OtherExpression\<close> stands for any of
  them, carrying what its own overrides return.
\<close>

datatype expression =
    OtherExpression bool bool
  | CommonSubExpression expression string

fun IsScalar :: "expression \<Rightarrow> bool" where
  "IsScalar (OtherExpression scalar foldable) = scalar"
| "IsScalar (CommonSubExpression child alias) = False"

fun IsFoldable :: "expression \<Rightarrow> bool" where
  "IsFoldable (OtherExpression scalar foldable) = foldable"
| "IsFoldable (CommonSubExpression child alias) = False"

section \<open>Connections, transactions and prepared statements\<close>

text \<open>
  The sources at hand hold the tests of the prepared statement API (test\_prepared\_api.cpp)
  but not the classes they exercise. The definitions of this section follow sections 3 and 4
  of the specification.
\<close>

text \<open>
  Modelled from the spec: the kinds of catalog entry; the Catalog is outside the sources at
  hand. Section 2: schema objects are tables, functions, collations.
\<close>

datatype entry_kind = TableEntry | FunctionEntry | CollationEntry

text \<open>
  Modelled from the spec: the catalog entry of section 3, \<open>{ name, kind,
  owning_transaction_id (nullable), invalidated }\<close>; the Catalog is outside the sources
  at hand. An entry is named by its position in the catalog, which never changes: entries are
  flagged, not removed.
\<close>

record catalog_entry =
  entry_name :: string
  kind :: entry_kind
  owning_transaction_id :: "nat option"
  invalidated :: bool

text \<open>
  Modelled from the spec: the status of a Transaction (section 3): Active, Committed or
  RolledBack; the TransactionManager is outside the sources at hand.
\<close>

datatype tx_status = Active | Committed | RolledBack

text \<open>
  Modelled from the spec: the Transaction of section 3, \<open>{ id, status, catalog_changes
  }\<close>; the TransactionManager is outside the sources at hand.
\<close>

record transaction =
  tx_id :: nat
  status :: tx_status
  catalog_changes :: "nat list"

text \<open>
  Modelled from the spec: the part of an attachment that connections and prepared statements
  see (glossary: one logical database plus its catalog and transaction manager): the catalog
  entries, the next transaction identifier, which only grows (section 2), and the identifiers
  of the transactions that ended RolledBack (section 3: a Transaction is immutable once
  terminal). Catalog and TransactionManager are outside the sources at hand.
\<close>

record attachment =
  entries :: "catalog_entry list"
  next_transaction_id :: nat
  rolled_back :: "nat list"

text \<open>
  Modelled from the spec: the declared type of a parameter; the type system is outside the
  sources at hand. These are the types the tests use.
\<close>

datatype sql_type = TINYINT | SMALLINT | INTEGER | BIGINT | VARCHAR

text \<open>
  Modelled from the spec: an argument value of Execute; the value class is outside the sources
  at hand.
\<close>

datatype sql_value = NullValue | IntegerValue int | VarcharValue string

text \<open>
  Modelled from the spec: the result of a query, rows of values; QueryResult is outside the
  sources at hand.
\<close>

type_synonym query_result = "sql_value list list"

text \<open>
  Modelled from the spec: the name under which a statement is registered (section 4.3):
  supplied by the caller or auto-generated; the Connection is outside the sources at hand.
\<close>

datatype statement_name = Named string | Generated nat

text \<open>
  Modelled from the spec: the bound plan of a PreparedStatement (section 4.3): opaque, apart
  from the catalog entries that binding recorded as its dependencies; the planner is outside
  the sources at hand.
\<close>

record bound_plan =
  plan_dependencies :: "nat list"
  plan_sql :: string

text \<open>
  Modelled from the spec: the PreparedStatement of section 3, \<open>{ name (optional),
  sql_text, parameter_count, parameter_types, bound_plan, owning_connection: weak reference,
  creation_transaction_id, success, error }\<close>; the class is outside the sources at hand.
  The weak reference is the identifier of the connection, resolved in the store of live
  connections at every use.
\<close>

record prepared_statement =
  ps_name :: "statement_name option"
  sql_text :: string
  parameter_count :: nat
  parameter_types :: "sql_type list"
  bound_plan :: bound_plan
  owning_connection :: nat
  creation_transaction_id :: "nat option"
  success :: bool
  error :: "string option"

text \<open>
  Modelled from the spec: the Connection of section 3, \<open>{ database, current_transaction,
  owned_prepared_statements: mapping name -> PreparedStatement }\<close>, and the counter its
  auto-generated statement names come from; the class is outside the sources at hand.
\<close>

record connection =
  database :: nat
  current_transaction :: "transaction option"
  owned_prepared_statements :: "statement_name \<rightharpoonup> prepared_statement"
  next_statement_id :: nat

text \<open>
  Modelled from the spec: the live attachments and the live connections, each under the
  identifier it was created with; a destroyed one is absent, and identifiers are not reused.
  The owners of these objects (the client's handles) are outside the sources at hand.
\<close>

record system =
  databases :: "nat \<rightharpoonup> attachment"
  next_database_id :: nat
  connections :: "nat \<rightharpoonup> connection"
  next_connection_id :: nat

text \<open>
  Modelled from the spec: the two causes of a ParameterError (section 7): wrong arity or a
  non-coercible type.
\<close>

datatype parameter_problem = WrongArity | NotCoercible

text \<open>
  Modelled from the spec: the error taxonomy of section 7; the exception classes are outside
  the sources at hand. \<open>CommitError\<close> and \<open>CatalogError\<close> are the
  errors of the interfaces of sections 4.2 and 6; \<open>InvalidConnectionError\<close> is the
  failure of a call on a connection that is gone or whose database is gone, which the tests
  require and the spec leaves unnamed.
\<close>

datatype error =
    AttachError
  | ParseOrBindError string
  | ParameterError parameter_problem
  | InvalidatedStatementError
  | NotFoundError
  | TransactionStateError
  | CommitError
  | CatalogError
  | InvalidConnectionError

text \<open>
  Modelled from the spec: what parsing one statement yields for this core (section 4.3, step
  2): the catalog objects it references and its parameter types; the parser is outside the
  sources at hand and out of the spec's scope.
\<close>

record parsed_statement =
  referenced :: "string list"
  parameters :: "sql_type list"

text \<open>
  Modelled from the spec: the excluded collaborators of section 1 as parameters: the parser,
  the implicit-cast rules of the host type system (section 4.3, Execute step 2) and the
  execution of a bound plan (step 4).
\<close>

record frontend =
  parse :: "string \<Rightarrow> string + parsed_statement"
  cast :: "sql_value \<Rightarrow> sql_type \<Rightarrow> sql_value option"
  run_plan :: "bound_plan \<Rightarrow> sql_value list \<Rightarrow> query_result"

text \<open>
  Modelled from the spec: the detection of a second statement (section 4.3, Prepare step 1): a
  statement-separating delimiter outside of string and identifier literals. The argument is
  the quote that opened the literal being read, if any.
\<close>

fun delimiter_outside_literals :: "char option \<Rightarrow> string \<Rightarrow> bool" where
  "delimiter_outside_literals q [] = False"
| "delimiter_outside_literals None (c # cs) =
     (if c = CHR '';'' then True
      else if c = CHR 0x27 \<or> c = CHR 0x22 then delimiter_outside_literals (Some c) cs
      else delimiter_outside_literals None cs)"
| "delimiter_outside_literals (Some q) (c # cs) =
     (if c = q then delimiter_outside_literals None cs
      else delimiter_outside_literals (Some q) cs)"

text \<open>
  Modelled from the spec: Prepare step 1 (section 4.3): the SQL text holds more than one
  top-level statement.
\<close>

definition multiple_statements :: "string \<Rightarrow> bool" where
  "multiple_statements sql = delimiter_outside_literals None sql"

text \<open>
  Modelled from the spec: the visibility of a catalog entry (sections 3 and 4.2): never when
  invalidated; when it belongs to a transaction, only to that transaction; the Catalog is
  outside the sources at hand.
\<close>

definition visible :: "nat option \<Rightarrow> catalog_entry \<Rightarrow> bool" where
  "visible as_of e =
     (\<not> invalidated e \<and>
      (case owning_transaction_id e of None \<Rightarrow> True | Some t \<Rightarrow> as_of = Some t))"

text \<open>
  Modelled from the spec: name lookup in the catalog (section 6, \<open>Resolve(name,
  as_of_tx)\<close>): the newest visible entry of that name; the first argument is the
  position of the head of the list.
\<close>

fun resolve_from :: "nat \<Rightarrow> nat option \<Rightarrow> string \<Rightarrow> catalog_entry list \<Rightarrow> nat option" where
  "resolve_from i as_of nm [] = None"
| "resolve_from i as_of nm (e # es) =
     (case resolve_from (Suc i) as_of nm es of
        Some j \<Rightarrow> Some j
      | None \<Rightarrow> if visible as_of e \<and> entry_name e = nm then Some i else None)"

text \<open>
  Modelled from the spec: \<open>Resolve(name, as_of_tx)\<close> of the Catalog (section 6),
  absent from the sources.
\<close>

definition Catalog_Resolve :: "catalog_entry list \<Rightarrow> nat option \<Rightarrow> string \<Rightarrow> nat option" where
  "Catalog_Resolve es as_of nm = resolve_from 0 as_of nm es"

text \<open>
  Modelled from the spec: \<open>Invalidate(tx_id)\<close> of the Catalog (sections 4.2 and
  6), absent from the sources: every entry of that transaction gets \<open>invalidated =
  true\<close>.
\<close>

definition Catalog_Invalidate :: "nat \<Rightarrow> catalog_entry list \<Rightarrow> catalog_entry list" where
  "Catalog_Invalidate t es =
     map (\<lambda>e. if owning_transaction_id e = Some t then e\<lparr>invalidated := True\<rparr> else e) es"

text \<open>
  Modelled from the spec: \<open>Commit(tx_id)\<close> of the Catalog (sections 4.2 and 6),
  absent from the sources: the entries of that transaction lose the transaction linkage and
  become base state.
\<close>

definition Catalog_Commit :: "nat \<Rightarrow> catalog_entry list \<Rightarrow> catalog_entry list" where
  "Catalog_Commit t es =
     map (\<lambda>e. if owning_transaction_id e = Some t then e\<lparr>owning_transaction_id := None\<rparr> else e) es"

text \<open>
  Modelled from the spec: binding (section 4.3, Prepare step 2), absent from the sources:
  every referenced catalog object is resolved and recorded as a dependency; one unresolved
  reference fails the whole.
\<close>

definition bind :: "catalog_entry list \<Rightarrow> nat option \<Rightarrow> string list \<Rightarrow> nat list option" where
  "bind es as_of names = those (map (Catalog_Resolve es as_of) names)"

text \<open>
  Modelled from the spec: \<open>Attach\<close> (section 6) as far as connections see it,
  absent from the sources: a new attachment with an empty catalog under the next identifier.
\<close>

definition Attach :: "system \<Rightarrow> nat \<times> system" where
  "Attach s =
     (next_database_id s,
      s\<lparr>databases := (databases s)(next_database_id s \<mapsto>
            \<lparr>entries = [], next_transaction_id = 0, rolled_back = []\<rparr>),
        next_database_id := Suc (next_database_id s)\<rparr>)"

text \<open>
  Modelled from the spec: the creation of a Connection bound to one attachment (section 2),
  absent from the sources.
\<close>

definition Connect :: "nat \<Rightarrow> system \<Rightarrow> (error + nat) \<times> system" where
  "Connect did s =
     (case databases s did of
        None \<Rightarrow> (Inl InvalidConnectionError, s)
      | Some d \<Rightarrow>
          (Inr (next_connection_id s),
           s\<lparr>connections := (connections s)(next_connection_id s \<mapsto>
                 \<lparr>database = did, current_transaction = None,
                  owned_prepared_statements = Map.empty, next_statement_id = 0\<rparr>),
             next_connection_id := Suc (next_connection_id s)\<rparr>))"

text \<open>
  Modelled from the spec: \<open>Begin\<close> (section 4.2), absent from the sources:
  allocates the next identifier; an error when the connection already has an Active
  transaction.
\<close>

definition Begin :: "nat \<Rightarrow> system \<Rightarrow> (error + transaction) \<times> system" where
  "Begin cid s =
     (case connections s cid of
        None \<Rightarrow> (Inl InvalidConnectionError, s)
      | Some c \<Rightarrow>
          (case databases s (database c) of
             None \<Rightarrow> (Inl InvalidConnectionError, s)
           | Some d \<Rightarrow>
               (case current_transaction c of
                  Some t \<Rightarrow> (Inl TransactionStateError, s)
                | None \<Rightarrow>
                    (let t = \<lparr>tx_id = next_transaction_id d, status = Active, catalog_changes = []\<rparr>
                     in (Inr t,
                         s\<lparr>databases := (databases s)(database c \<mapsto>
                               d\<lparr>next_transaction_id := Suc (next_transaction_id d)\<rparr>),
                           connections := (connections s)(cid \<mapsto>
                               c\<lparr>current_transaction := Some t\<rparr>)\<rparr>)))))"

text \<open>
  Modelled from the spec: \<open>Commit\<close> (section 4.2), absent from the sources;
  \<open>persisted\<close> is the outcome of the storage layer: when it fails, the commit
  error surfaces and the transaction is rolled back instead.
\<close>

definition Commit :: "bool \<Rightarrow> nat \<Rightarrow> system \<Rightarrow> (error + transaction) \<times> system" where
  "Commit persisted cid s =
     (case connections s cid of
        None \<Rightarrow> (Inl InvalidConnectionError, s)
      | Some c \<Rightarrow>
          (case databases s (database c) of
             None \<Rightarrow> (Inl InvalidConnectionError, s)
           | Some d \<Rightarrow>
               (case current_transaction c of
                  None \<Rightarrow> (Inl TransactionStateError, s)
                | Some t \<Rightarrow>
                    (if persisted then
                       (Inr (t\<lparr>status := Committed\<rparr>),
                        s\<lparr>databases := (databases s)(database c \<mapsto>
                              d\<lparr>entries := Catalog_Commit (tx_id t) (entries d)\<rparr>),
                          connections := (connections s)(cid \<mapsto>
                              c\<lparr>current_transaction := None\<rparr>)\<rparr>)
                     else
                       (Inl CommitError,
                        s\<lparr>databases := (databases s)(database c \<mapsto>
                              d\<lparr>entries := Catalog_Invalidate (tx_id t) (entries d),
                                rolled_back := rolled_back d @ [tx_id t]\<rparr>),
                          connections := (connections s)(cid \<mapsto>
                              c\<lparr>current_transaction := None\<rparr>)\<rparr>)))))"

text \<open>
  Modelled from the spec: \<open>Rollback\<close> (section 4.2), absent from the sources:
  every catalog entry of the transaction is invalidated and the transaction ends RolledBack,
  which the attachment remembers.
\<close>

definition Rollback :: "nat \<Rightarrow> system \<Rightarrow> (error + transaction) \<times> system" where
  "Rollback cid s =
     (case connections s cid of
        None \<Rightarrow> (Inl InvalidConnectionError, s)
      | Some c \<Rightarrow>
          (case databases s (database c) of
             None \<Rightarrow> (Inl InvalidConnectionError, s)
           | Some d \<Rightarrow>
               (case current_transaction c of
                  None \<Rightarrow> (Inl TransactionStateError, s)
                | Some t \<Rightarrow>
                    (Inr (t\<lparr>status := RolledBack\<rparr>),
                     s\<lparr>databases := (databases s)(database c \<mapsto>
                           d\<lparr>entries := Catalog_Invalidate (tx_id t) (entries d),
                             rolled_back := rolled_back d @ [tx_id t]\<rparr>),
                       connections := (connections s)(cid \<mapsto>
                           c\<lparr>current_transaction := None\<rparr>)\<rparr>))))"

text \<open>
  Modelled from the spec: \<open>CreateEntry\<close> of the Catalog (section 6) called through
  a connection, absent from the sources: the entry belongs to the connection's Active
  transaction, or is base state under the autocommit rule (section 4.2), which uses up one
  transaction identifier.
\<close>

definition CreateEntry :: "nat \<Rightarrow> string \<Rightarrow> entry_kind \<Rightarrow> system \<Rightarrow> (error + nat) \<times> system" where
  "CreateEntry cid nm k s =
     (case connections s cid of
        None \<Rightarrow> (Inl InvalidConnectionError, s)
      | Some c \<Rightarrow>
          (case databases s (database c) of
             None \<Rightarrow> (Inl InvalidConnectionError, s)
           | Some d \<Rightarrow>
               (let as_of = map_option tx_id (current_transaction c) in
                if Catalog_Resolve (entries d) as_of nm \<noteq> None then (Inl CatalogError, s)
                else
                  (let e = \<lparr>entry_name = nm, kind = k, owning_transaction_id = as_of,
                            invalidated = False\<rparr>;
                       i = length (entries d)
                   in (Inr i,
                       s\<lparr>databases := (databases s)(database c \<mapsto>
                             d\<lparr>entries := entries d @ [e],
                               next_transaction_id :=
                                 (if current_transaction c = None then Suc (next_transaction_id d)
                                  else next_transaction_id d)\<rparr>),
                         connections := (connections s)(cid \<mapsto>
                             c\<lparr>current_transaction :=
                                 map_option (\<lambda>t. t\<lparr>catalog_changes := catalog_changes t @ [i]\<rparr>)
                                   (current_transaction c)\<rparr>)\<rparr>)))))"

text \<open>
  Modelled from the spec: the PreparedStatement that Prepare returns on an error (section 4.3,
  Prepare step 3): \<open>success = false\<close> and the error captured.
\<close>

definition failed_statement ::
  "nat \<Rightarrow> string option \<Rightarrow> string \<Rightarrow> string \<Rightarrow> prepared_statement" where
  "failed_statement cid nm sql msg =
     \<lparr> ps_name = map_option Named nm, sql_text = sql, parameter_count = 0,
       parameter_types = [],
       bound_plan = \<lparr>plan_dependencies = [], plan_sql = []\<rparr>,
       owning_connection = cid, creation_transaction_id = None,
       success = False, error = Some msg \<rparr>"

text \<open>
  Modelled from the spec: steps 1 and 2 of Prepare (section 4.3), absent from the sources: the
  rejection of more than one statement, parsing, and binding against the catalog visible to
  the connection's current transaction. A connection that is gone or whose database is gone
  cannot bind (the test of destructors requires the failure).
\<close>

definition compile ::
  "frontend \<Rightarrow> nat \<Rightarrow> string \<Rightarrow> system \<Rightarrow> string + (parsed_statement \<times> nat list)" where
  "compile fe cid sql s =
     (if multiple_statements sql then Inl ''cannot prepare multiple statements at once''
      else
        (case parse fe sql of
           Inl msg \<Rightarrow> Inl msg
         | Inr q \<Rightarrow>
             (case connections s cid of
                None \<Rightarrow> Inl ''connection has been destroyed''
              | Some c \<Rightarrow>
                  (case databases s (database c) of
                     None \<Rightarrow> Inl ''database has been destroyed''
                   | Some d \<Rightarrow>
                       (case bind (entries d) (map_option tx_id (current_transaction c))
                               (referenced q) of
                          None \<Rightarrow> Inl ''unresolved catalog reference''
                        | Some deps \<Rightarrow> Inr (q, deps))))))"

text \<open>
  Modelled from the spec: \<open>Connection::Prepare\<close> (section 4.3), absent from the
  sources. It never raises: an error is captured in the statement returned (step 3), which is
  then not registered; on success the statement records the Active transaction and is
  registered under its name (step 4).
\<close>

definition Prepare ::
  "frontend \<Rightarrow> nat \<Rightarrow> string option \<Rightarrow> string \<Rightarrow> system \<Rightarrow> prepared_statement \<times> system" where
  "Prepare fe cid nm sql s =
     (case compile fe cid sql s of
        Inl msg \<Rightarrow> (failed_statement cid nm sql msg, s)
      | Inr (q, deps) \<Rightarrow>
          (case connections s cid of
             None \<Rightarrow> (failed_statement cid nm sql ''connection has been destroyed'', s)
           | Some c \<Rightarrow>
               (let n = (case nm of Some x \<Rightarrow> Named x | None \<Rightarrow> Generated (next_statement_id c));
                    p = \<lparr> ps_name = Some n, sql_text = sql,
                          parameter_count = length (parameters q),
                          parameter_types = parameters q,
                          bound_plan = \<lparr>plan_dependencies = deps, plan_sql = sql\<rparr>,
                          owning_connection = cid,
                          creation_transaction_id = map_option tx_id (current_transaction c),
                          success = True, error = None \<rparr>
                in (p,
                    s\<lparr>connections := (connections s)(cid \<mapsto>
                          c\<lparr>owned_prepared_statements := (owned_prepared_statements c)(n \<mapsto> p),
                            next_statement_id := Suc (next_statement_id c)\<rparr>)\<rparr>))))"

text \<open>
  Modelled from the spec: condition (c) of the validity predicate (section 3) for one
  dependency: the entry exists and is not invalidated.
\<close>

definition entry_usable :: "catalog_entry list \<Rightarrow> nat \<Rightarrow> bool" where
  "entry_usable es i = (i < length es \<and> \<not> invalidated (es ! i))"

text \<open>
  Modelled from the spec: the invalidation of a statement by the rollback of the transaction
  it was created under (section 4.4: Ready to Invalidated, triggered by ancestor rollback;
  section 8: a statement created while a transaction is Active fails once that transaction is
  rolled back; section 4.2: a statement created outside an explicit transaction is bound to
  no transaction and unaffected by rollbacks). The transaction is the one that Prepare
  recorded as \<open>creation_transaction_id\<close>.
\<close>

definition creation_rolled_back :: "attachment \<Rightarrow> prepared_statement \<Rightarrow> bool" where
  "creation_rolled_back d p =
     (case creation_transaction_id p of
        None \<Rightarrow> False
      | Some t \<Rightarrow> t \<in> set (rolled_back d))"

text \<open>
  Modelled from the spec: the validity check of Execute. The predicate of section 3: (a) the
  owning connection resolves, (b) its database is live, (c) no catalog entry the bound plan
  references is invalidated; and, with sections 4.4 and 8, the transaction the statement was
  created under has not been rolled back.
\<close>

definition valid :: "system \<Rightarrow> prepared_statement \<Rightarrow> bool" where
  "valid s p =
     (case connections s (owning_connection p) of
        None \<Rightarrow> False
      | Some c \<Rightarrow>
          (case databases s (database c) of
             None \<Rightarrow> False
           | Some d \<Rightarrow>
               list_all (entry_usable (entries d)) (plan_dependencies (bound_plan p)) \<and>
               \<not> creation_rolled_back d p))"

text \<open>
  Modelled from the spec: Execute step 2 (section 4.3): each argument is cast to its declared
  parameter type; \<open>None\<close> when one is not coercible.
\<close>

definition cast_arguments ::
  "frontend \<Rightarrow> sql_value list \<Rightarrow> sql_type list \<Rightarrow> sql_value list option" where
  "cast_arguments fe args tys = those (map (\<lambda>(v, ty). cast fe v ty) (zip args tys))"

text \<open>
  Modelled from the spec: the autocommit rule at Execute step 4 (sections 4.2 and 4.3): with
  no Active transaction an implicit one is opened and closed around the statement, which uses
  up one transaction identifier.
\<close>

definition open_implicit_transaction :: "nat \<Rightarrow> system \<Rightarrow> system" where
  "open_implicit_transaction cid s =
     (case connections s cid of
        None \<Rightarrow> s
      | Some c \<Rightarrow>
          (case current_transaction c of
             Some t \<Rightarrow> s
           | None \<Rightarrow>
               (case databases s (database c) of
                  None \<Rightarrow> s
                | Some d \<Rightarrow>
                    s\<lparr>databases := (databases s)(database c \<mapsto>
                          d\<lparr>next_transaction_id := Suc (next_transaction_id d)\<rparr>)\<rparr>)))"

text \<open>
  Modelled from the spec: \<open>Execute\<close> on a PreparedStatement (section 4.3), absent
  from the sources. A failed statement fails immediately, repeating its error (Prepare step 3,
  section 4.4); then the steps in the order given: 1 argument count, 2 argument types, 3
  validity, 4 run. The state is returned with the outcome.
\<close>

definition Execute ::
  "frontend \<Rightarrow> prepared_statement \<Rightarrow> sql_value list \<Rightarrow> system
     \<Rightarrow> (error + query_result) \<times> system" where
  "Execute fe p args s =
     (if \<not> success p then
        (Inl (ParseOrBindError (case error p of Some msg \<Rightarrow> msg | None \<Rightarrow> [])), s)
      else if length args \<noteq> parameter_count p then (Inl (ParameterError WrongArity), s)
      else
        (case cast_arguments fe args (parameter_types p) of
           None \<Rightarrow> (Inl (ParameterError NotCoercible), s)
         | Some vs \<Rightarrow>
             (if \<not> valid s p then (Inl InvalidatedStatementError, s)
              else (Inr (run_plan fe (bound_plan p) vs),
                    open_implicit_transaction (owning_connection p) s))))"

text \<open>
  Modelled from the spec: named re-execution \<open>EXECUTE name(args)\<close> (section 4.3),
  absent from the sources: the statement is looked up by name in the connection's registry.
\<close>

definition ExecuteNamed ::
  "frontend \<Rightarrow> nat \<Rightarrow> statement_name \<Rightarrow> sql_value list \<Rightarrow> system
     \<Rightarrow> (error + query_result) \<times> system" where
  "ExecuteNamed fe cid n args s =
     (case connections s cid of
        None \<Rightarrow> (Inl InvalidConnectionError, s)
      | Some c \<Rightarrow>
          (case owned_prepared_statements c n of
             None \<Rightarrow> (Inl NotFoundError, s)
           | Some p \<Rightarrow> Execute fe p args s))"

text \<open>
  Modelled from the spec: the explicit release or the destructor of a PreparedStatement
  (sections 3 and 4.3), absent from the sources: its name is dropped from the registry of its
  owner, if that is still alive.
\<close>

definition Release :: "prepared_statement \<Rightarrow> system \<Rightarrow> system" where
  "Release p s =
     (case ps_name p of
        None \<Rightarrow> s
      | Some n \<Rightarrow>
          (case connections s (owning_connection p) of
             None \<Rightarrow> s
           | Some c \<Rightarrow>
               s\<lparr>connections := (connections s)(owning_connection p \<mapsto>
                     c\<lparr>owned_prepared_statements := (owned_prepared_statements c)(n := None)\<rparr>)\<rparr>))"

text \<open>
  Modelled from the spec: the destruction of a Connection (section 4.3), absent from the
  sources: an Active transaction is rolled back, then the connection no longer resolves.
\<close>

definition DestroyConnection :: "nat \<Rightarrow> system \<Rightarrow> system" where
  "DestroyConnection cid s =
     (case connections s cid of
        None \<Rightarrow> s
      | Some c \<Rightarrow>
          (let s1 = (case current_transaction c of
                       None \<Rightarrow> s
                     | Some t \<Rightarrow> snd (Rollback cid s))
           in s1\<lparr>connections := (connections s1)(cid := None)\<rparr>))"

text \<open>
  Modelled from the spec: the destruction of the database under live connections, as the test
  of destructors does it (\<open>db.reset()\<close>); its code is absent from the sources. The
  attachment no longer resolves.
\<close>

definition DestroyDatabase :: "nat \<Rightarrow> system \<Rightarrow> system" where
  "DestroyDatabase did s = s\<lparr>databases := (databases s)(did := None)\<rparr>"

text \<open>
  Modelled from the spec: the calls a client can make (section 6 and the tests), as data, so
  that a property can speak of everything that happens later.
\<close>

datatype operation =
    Op_Attach
  | Op_Connect nat
  | Op_Begin nat
  | Op_Commit bool nat
  | Op_Rollback nat
  | Op_CreateEntry nat string entry_kind
  | Op_Prepare nat "string option" string
  | Op_Execute prepared_statement "sql_value list"
  | Op_ExecuteNamed nat statement_name "sql_value list"
  | Op_Release prepared_statement
  | Op_DestroyConnection nat
  | Op_DestroyDatabase nat

text \<open>
  Modelled from the spec: one client call applied to the state; the outcome of the call is
  dropped.
\<close>

fun step :: "frontend \<Rightarrow> system \<Rightarrow> operation \<Rightarrow> system" where
  "step fe s Op_Attach = snd (Attach s)"
| "step fe s (Op_Connect did) = snd (Connect did s)"
| "step fe s (Op_Begin cid) = snd (Begin cid s)"
| "step fe s (Op_Commit persisted cid) = snd (Commit persisted cid s)"
| "step fe s (Op_Rollback cid) = snd (Rollback cid s)"
| "step fe s (Op_CreateEntry cid nm k) = snd (CreateEntry cid nm k s)"
| "step fe s (Op_Prepare cid nm sql) = snd (Prepare fe cid nm sql s)"
| "step fe s (Op_Execute p args) = snd (Execute fe p args s)"
| "step fe s (Op_ExecuteNamed cid n args) = snd (ExecuteNamed fe cid n args s)"
| "step fe s (Op_Release p) = Release p s"
| "step fe s (Op_DestroyConnection cid) = DestroyConnection cid s"
| "step fe s (Op_DestroyDatabase did) = DestroyDatabase did s"

text \<open>
  Modelled from the spec: a sequence of client calls, first to last.
\<close>

definition run_operations :: "frontend \<Rightarrow> operation list \<Rightarrow> system \<Rightarrow> system" where
  "run_operations fe ops s = foldl (step fe) s ops"

text \<open>
  Modelled from the spec: the state before anything is attached.
\<close>

definition initial_system :: system where
  "initial_system =
     \<lparr> databases = Map.empty, next_database_id = 0,
       connections = Map.empty, next_connection_id = 0 \<rparr>"

subsection \<open>Invariants\<close>

text \<open>
  What every operation preserves of an attachment: catalog entries keep their positions, an
  invalidated entry stays invalidated, and a transaction that was rolled back stays so.
\<close>

definition db_extends :: "attachment \<Rightarrow> attachment \<Rightarrow> bool" where
  "db_extends d d' =
     (length (entries d) \<le> length (entries d') \<and>
      (\<forall>i < length (entries d). invalidated (entries d ! i) \<longrightarrow> invalidated (entries d' ! i)) \<and>
      set (rolled_back d) \<subseteq> set (rolled_back d'))"

text \<open>
  What every operation preserves of the state: identifiers only grow; a connection or an
  attachment whose identifier has been handed out is either gone or the one it was, a connection
  with the database it was bound to.
\<close>

definition extends :: "system \<Rightarrow> system \<Rightarrow> bool" where
  "extends s s' =
     (next_connection_id s \<le> next_connection_id s' \<and>
      next_database_id s \<le> next_database_id s' \<and>
      (\<forall>cid c'. cid < next_connection_id s \<longrightarrow> connections s' cid = Some c' \<longrightarrow>
         (\<exists>c. connections s cid = Some c \<and> database c' = database c)) \<and>
      (\<forall>did d'. did < next_database_id s \<longrightarrow> databases s' did = Some d' \<longrightarrow>
         (\<exists>d. databases s did = Some d \<and> db_extends d d')))"

text \<open>
  Every live connection and attachment carries an identifier that has been handed out, and a
  connection is bound to a database whose identifier has been handed out.
\<close>

definition ids_allocated :: "system \<Rightarrow> bool" where
  "ids_allocated s =
     ((\<forall>cid c. connections s cid = Some c \<longrightarrow>
         cid < next_connection_id s \<and> database c < next_database_id s) \<and>
      (\<forall>did d. databases s did = Some d \<longrightarrow> did < next_database_id s))"

text \<open>
  A statement that an attachment will never run again: one of the catalog entries its plan
  depends on is invalidated, or the transaction it was created under was rolled back.
\<close>

definition doomed :: "attachment \<Rightarrow> prepared_statement \<Rightarrow> bool" where
  "doomed d p =
     (list_ex (\<lambda>i. i < length (entries d) \<and> invalidated (entries d ! i))
        (plan_dependencies (bound_plan p)) \<or>
      creation_rolled_back d p)"

text \<open>
  A statement that can never run again: its owner was created and is gone, or the owner's
  database was created and is gone, or that database will never run it again.
\<close>

definition unusable :: "system \<Rightarrow> prepared_statement \<Rightarrow> bool" where
  "unusable s p =
     (owning_connection p < next_connection_id s \<and>
      (case connections s (owning_connection p) of
         None \<Rightarrow> True
       | Some c \<Rightarrow>
           database c < next_database_id s \<and>
           (case databases s (database c) of
              None \<Rightarrow> True
            | Some d \<Rightarrow> doomed d p)))"

text \<open>
  The outcome of an Execute that cannot run the plan, as \<open>Execute\<close> computes it: the state
  is unchanged and the error does not depend on the state.
\<close>

definition rejected :: "frontend \<Rightarrow> prepared_statement \<Rightarrow> sql_value list \<Rightarrow> system \<Rightarrow> bool" where
  "rejected fe p args s =
     (Execute fe p args s =
        (Inl (if \<not> success p then ParseOrBindError (case error p of Some msg \<Rightarrow> msg | None \<Rightarrow> [])
              else if length args \<noteq> parameter_count p then ParameterError WrongArity
              else if cast_arguments fe args (parameter_types p) = None
                then ParameterError NotCoercible
              else InvalidatedStatementError), s))"

subsection \<open>The scenarios of test\_prepared\_api.cpp\<close>

text \<open>
  The parser's answers for the SQL texts of test\_prepared\_api.cpp: the catalog objects
  referenced and the parameter types. Everything else is a syntax error, as is the text with
  \<open>SELEC\<close>.
\<close>

definition test_parse :: "string \<Rightarrow> string + parsed_statement" where
  "test_parse sql =
     (if sql = ''SELECT COUNT(*) FROM a WHERE i=$1'' \<or> sql = ''SELECT COUNT(*) FROM a WHERE i>$1''
      then Inr \<lparr>referenced = [''a''], parameters = [TINYINT]\<rparr>
      else if sql = ''SELECT $1::INTEGER+$2::INTEGER''
      then Inr \<lparr>referenced = [], parameters = [INTEGER, INTEGER]\<rparr>
      else Inl ''syntax error'')"

text \<open>Integers fit the integer types, strings fit VARCHAR, NULL fits every type.\<close>

fun test_cast :: "sql_value \<Rightarrow> sql_type \<Rightarrow> sql_value option" where
  "test_cast NullValue ty = Some NullValue"
| "test_cast (IntegerValue n) VARCHAR = None"
| "test_cast (IntegerValue n) ty = Some (IntegerValue n)"
| "test_cast (VarcharValue x) VARCHAR = Some (VarcharValue x)"
| "test_cast (VarcharValue x) ty = None"

text \<open>The result of a run is the one row of the arguments it was given.\<close>

definition test_frontend :: frontend where
  "test_frontend = \<lparr> parse = test_parse, cast = test_cast, run_plan = (\<lambda>plan vs. [vs]) \<rparr>"

text \<open>The SQL texts of the tests.\<close>

definition sql_add :: string where
  "sql_add = ''SELECT $1::INTEGER+$2::INTEGER''"

definition sql_count :: string where
  "sql_count = ''SELECT COUNT(*) FROM a WHERE i=$1''"

definition sql_typo :: string where
  "sql_typo = ''SELEC COUNT(*) FROM a WHERE i=$1''"

definition sql_two :: string where
  "sql_two = ''SELECT COUNT(*) FROM a WHERE i=$1; SELECT 42+$2;''"

text \<open>
  The states and statements of the tests: a database with one connection; the statement of
  ``Test destructors''; a statement with a parse error; table \<open>a\<close> created in autocommit
  mode; table \<open>a\<close> created inside an open transaction, as in ``Test prepared statements and
  transactions''; and table \<open>a\<close> committed before a transaction is opened.
\<close>

definition s_connected :: system where
  "s_connected = run_operations test_frontend [Op_Attach, Op_Connect 0] initial_system"

definition p_add :: prepared_statement where
  "p_add = fst (Prepare test_frontend 0 None sql_add s_connected)"

definition p_typo :: prepared_statement where
  "p_typo = fst (Prepare test_frontend 0 None sql_typo s_connected)"

definition s_table :: system where
  "s_table =
     run_operations test_frontend
       [Op_Attach, Op_Connect 0, Op_CreateEntry 0 ''a'' TableEntry] initial_system"

definition p_count :: prepared_statement where
  "p_count = fst (Prepare test_frontend 0 None sql_count s_table)"

definition s_table_in_transaction :: system where
  "s_table_in_transaction =
     run_operations test_frontend
       [Op_Attach, Op_Connect 0, Op_Begin 0, Op_CreateEntry 0 ''a'' TableEntry] initial_system"

definition p_count_in_transaction :: prepared_statement where
  "p_count_in_transaction = fst (Prepare test_frontend 0 None sql_count s_table_in_transaction)"

definition s_table_before_transaction :: system where
  "s_table_before_transaction =
     run_operations test_frontend
       [Op_Attach, Op_Connect 0, Op_CreateEntry 0 ''a'' TableEntry, Op_Begin 0] initial_system"

definition p_count_base :: prepared_statement where
  "p_count_base = fst (Prepare test_frontend 0 None sql_count s_table_before_transaction)"

section \<open>Properties of AttachedDatabase\<close>

lemma destructor_try_calls:
  "calls (snd (destructor_try K adb)) =
     calls adb @ Call_InMemory #
       (if \<not> InMemory K (storage adb) \<and> checkpoint_on_shutdown (db adb)
        then [Call_CreateCheckpoint True] else [])"
  by (simp add: destructor_try_def Let_def split: prod.splits)

lemma destructor_try_storage:
  "storage (snd (destructor_try K adb)) =
     (if \<not> InMemory K (storage adb) \<and> checkpoint_on_shutdown (db adb)
      then snd (CreateCheckpoint K True (storage adb)) else storage adb)"
  by (simp add: destructor_try_def Let_def split: prod.splits)

lemma destructor_after_try:
  "\<not> uncaught \<Longrightarrow>
     snd (AttachedDatabase_destructor K uncaught adb) = snd (destructor_try K adb)"
  by (simp add: AttachedDatabase_destructor_def split: prod.splits sum.splits)

text \<open>
  C3: the destructor attempts a checkpoint exactly when no exception is in flight, the
  storage is not in-memory and \<open>checkpoint_on_shutdown\<close> is set. Then the storage manager
  it leaves behind is the one that a single \<open>CreateCheckpoint(true)\<close> leaves, and that one
  call is logged; otherwise the storage manager is untouched and no such call is logged.
\<close>

theorem destructor_checkpoint_iff:
  "storage (snd (AttachedDatabase_destructor K uncaught adb)) =
     (if \<not> InMemory K (storage adb) \<and> checkpoint_on_shutdown (db adb) \<and> \<not> uncaught
      then snd (CreateCheckpoint K True (storage adb)) else storage adb) \<and>
   filter is_checkpoint (calls (snd (AttachedDatabase_destructor K uncaught adb))) =
     filter is_checkpoint (calls adb) @
       (if \<not> InMemory K (storage adb) \<and> checkpoint_on_shutdown (db adb) \<and> \<not> uncaught
        then [Call_CreateCheckpoint True] else [])"
proof (cases uncaught)
  case True
  then show ?thesis by (simp add: AttachedDatabase_destructor_def)
next
  case False
  then show ?thesis
    by (simp add: destructor_after_try destructor_try_storage destructor_try_calls)
qed

text \<open>
  With the test collaborators the storage manager counts the checkpoints written: one for a
  file with \<open>checkpoint_on_shutdown\<close> and no exception in flight, none for an in-memory
  database, with the option off, or while an exception is in flight.
\<close>

theorem destructor_checkpoint_iff_witness:
  "storage (snd (AttachedDatabase_destructor (test_collaborators False False)
      False (AttachedDatabase (test_collaborators False False) (test_config ''test.db'' True))))
     = (False, 1) \<and>
   filter is_checkpoint (calls (snd (AttachedDatabase_destructor (test_collaborators False False)
      False (AttachedDatabase (test_collaborators False False) (test_config ''test.db'' True)))))
     = [Call_CreateCheckpoint True] \<and>
   storage (snd (AttachedDatabase_destructor (test_collaborators False False)
      False (AttachedDatabase (test_collaborators False False) (test_config '':memory:'' True))))
     = (True, 0) \<and>
   filter is_checkpoint (calls (snd (AttachedDatabase_destructor (test_collaborators False False)
      False (AttachedDatabase (test_collaborators False False) (test_config '':memory:'' True)))))
     = [] \<and>
   storage (snd (AttachedDatabase_destructor (test_collaborators False False)
      False (AttachedDatabase (test_collaborators False False) (test_config ''test.db'' False))))
     = (False, 0) \<and>
   filter is_checkpoint (calls (snd (AttachedDatabase_destructor (test_collaborators False False)
      False (AttachedDatabase (test_collaborators False False) (test_config ''test.db'' False)))))
     = [] \<and>
   storage (snd (AttachedDatabase_destructor (test_collaborators False False)
      True (AttachedDatabase (test_collaborators False False) (test_config ''test.db'' True))))
     = (False, 0) \<and>
   filter is_checkpoint (calls (snd (AttachedDatabase_destructor (test_collaborators False False)
      True (AttachedDatabase (test_collaborators False False) (test_config ''test.db'' True)))))
     = []"
  using destructor_checkpoint_iff [of "test_collaborators False False" False
      "AttachedDatabase (test_collaborators False False) (test_config ''test.db'' True)"]
    destructor_checkpoint_iff [of "test_collaborators False False" False
      "AttachedDatabase (test_collaborators False False) (test_config '':memory:'' True)"]
    destructor_checkpoint_iff [of "test_collaborators False False" False
      "AttachedDatabase (test_collaborators False False) (test_config ''test.db'' False)"]
    destructor_checkpoint_iff [of "test_collaborators False False" True
      "AttachedDatabase (test_collaborators False False) (test_config ''test.db'' True)"]
  by (simp add: AttachedDatabase_def test_collaborators_def test_config_def)

text \<open>
  C4: the destructor completes normally for every state and every behaviour of the
  collaborators, also when \<open>CreateCheckpoint\<close> throws.
\<close>

theorem destructor_never_throws:
  "fst (AttachedDatabase_destructor K uncaught adb) = Inr ()"
  by (simp add: AttachedDatabase_destructor_def split: prod.splits sum.splits)

theorem destructor_never_throws_witness:
  "fst (CreateCheckpoint (test_collaborators True False) True
      (storage (AttachedDatabase (test_collaborators True False) (test_config ''test.db'' True))))
     = Inl (Exception ''checkpoint'') \<and>
   fst (AttachedDatabase_destructor (test_collaborators True False) False
      (AttachedDatabase (test_collaborators True False) (test_config ''test.db'' True)))
     = Inr ()"
  using destructor_never_throws [of "test_collaborators True False" False
      "AttachedDatabase (test_collaborators True False) (test_config ''test.db'' True)"]
  by (simp add: AttachedDatabase_def test_collaborators_def test_config_def)

text \<open>
  C8: \<open>ExtractDatabaseName\<close> gives \<open>memory\<close> for the empty path and for
  \<open>:memory:\<close>, and the base name of the path otherwise; the constructor makes it the
  name of the AttachedDatabase, from the configured database path.
\<close>

theorem attached_database_name:
  "ExtractDatabaseName K dbpath =
     (if dbpath = [] \<or> dbpath = '':memory:'' then ''memory'' else ExtractBaseName K dbpath) \<and>
   name (AttachedDatabase K config) = ExtractDatabaseName K (database_path config)"
  by (simp add: AttachedDatabase_def ExtractDatabaseName_def)

theorem attached_database_name_witness:
  "name (AttachedDatabase (test_collaborators False False) (test_config [] True)) = ''memory'' \<and>
   name (AttachedDatabase (test_collaborators False False) (test_config '':memory:'' True))
     = ''memory'' \<and>
   name (AttachedDatabase (test_collaborators False False) (test_config ''test.db'' True))
     = ''test''"
  using attached_database_name [of "test_collaborators False False" "[]" "test_config [] True"]
    attached_database_name [of "test_collaborators False False" "'':memory:''"
      "test_config '':memory:'' True"]
    attached_database_name [of "test_collaborators False False" "''test.db''"
      "test_config ''test.db'' True"]
  by (simp add: test_collaborators_def test_config_def)




section \<open>Properties of CommonSubExpression\<close>

text \<open>
  C10: a CommonSubExpression is neither scalar nor foldable, whatever its child is.
\<close>

theorem cse_not_scalar_not_foldable:
  "IsScalar (CommonSubExpression child alias) = False \<and>
   IsFoldable (CommonSubExpression child alias) = False"
  by simp

section \<open>Properties of connections and prepared statements\<close>

subsection \<open>What no operation undoes\<close>

lemma db_extends_refl: "db_extends d d"
  by (simp add: db_extends_def)

lemma db_extends_trans: "db_extends d d' \<Longrightarrow> db_extends d' d'' \<Longrightarrow> db_extends d d''"
  by (auto simp: db_extends_def)

lemma extends_refl: "extends s s"
  by (simp add: extends_def db_extends_refl)

lemma extends_trans:
  assumes a: "extends s s'" and b: "extends s' s''"
  shows "extends s s''"
proof -
  have n1: "next_connection_id s \<le> next_connection_id s'" "next_database_id s \<le> next_database_id s'"
    using a by (simp_all add: extends_def)
  have n2: "next_connection_id s' \<le> next_connection_id s''" "next_database_id s' \<le> next_database_id s''"
    using b by (simp_all add: extends_def)
  have c1: "\<And>cid c'. cid < next_connection_id s \<Longrightarrow> connections s' cid = Some c' \<Longrightarrow>
         \<exists>c. connections s cid = Some c \<and> database c' = database c"
    using a by (simp add: extends_def)
  have c2: "\<And>cid c'. cid < next_connection_id s' \<Longrightarrow> connections s'' cid = Some c' \<Longrightarrow>
         \<exists>c. connections s' cid = Some c \<and> database c' = database c"
    using b by (simp add: extends_def)
  have d1: "\<And>did d'. did < next_database_id s \<Longrightarrow> databases s' did = Some d' \<Longrightarrow>
         \<exists>d. databases s did = Some d \<and> db_extends d d'"
    using a by (simp add: extends_def)
  have d2: "\<And>did d'. did < next_database_id s' \<Longrightarrow> databases s'' did = Some d' \<Longrightarrow>
         \<exists>d. databases s' did = Some d \<and> db_extends d d'"
    using b by (simp add: extends_def)
  have C: "\<exists>c. connections s cid = Some c \<and> database c'' = database c"
    if "cid < next_connection_id s" "connections s'' cid = Some c''" for cid c''
  proof -
    from that n1 have "cid < next_connection_id s'" by simp
    from c2[OF this that(2)] obtain c' where "connections s' cid = Some c'" "database c'' = database c'"
      by blast
    with c1[OF that(1)] show ?thesis by force
  qed
  have D: "\<exists>d. databases s did = Some d \<and> db_extends d d''"
    if "did < next_database_id s" "databases s'' did = Some d''" for did d''
  proof -
    from that n1 have "did < next_database_id s'" by simp
    from d2[OF this that(2)] obtain d' where "databases s' did = Some d'" "db_extends d' d''"
      by blast
    with d1[OF that(1)] show ?thesis using db_extends_trans by blast
  qed
  show ?thesis
    unfolding extends_def using n1 n2 C D by (intro conjI allI impI) auto
qed

lemma doomed_extends:
  assumes "doomed d p" and "db_extends d d'"
  shows "doomed d' p"
  using assms(1)
  unfolding doomed_def
proof
  assume "list_ex (\<lambda>i. i < length (entries d) \<and> invalidated (entries d ! i))
            (plan_dependencies (bound_plan p))"
  then obtain i where i: "i \<in> set (plan_dependencies (bound_plan p))"
      "i < length (entries d)" "invalidated (entries d ! i)"
    by (auto simp: list_ex_iff)
  with assms(2) have "i < length (entries d') \<and> invalidated (entries d' ! i)"
    by (auto simp: db_extends_def)
  with i(1) show "list_ex (\<lambda>i. i < length (entries d') \<and> invalidated (entries d' ! i))
            (plan_dependencies (bound_plan p)) \<or> creation_rolled_back d' p"
    by (auto simp: list_ex_iff)
next
  assume "creation_rolled_back d p"
  with assms(2) have "creation_rolled_back d' p"
    by (auto simp: creation_rolled_back_def db_extends_def split: option.splits)
  then show "list_ex (\<lambda>i. i < length (entries d') \<and> invalidated (entries d' ! i))
            (plan_dependencies (bound_plan p)) \<or> creation_rolled_back d' p"
    by simp
qed

lemma unusable_extends:
  assumes u: "unusable s p" and e: "extends s s'"
  shows "unusable s' p"
proof -
  let ?cid = "owning_connection p"
  from u have lt: "?cid < next_connection_id s" by (simp add: unusable_def)
  with e have lt': "?cid < next_connection_id s'" by (simp add: extends_def)
  show ?thesis
  proof (cases "connections s' ?cid")
    case None
    with lt' show ?thesis by (simp add: unusable_def)
  next
    case (Some c')
    with e lt obtain c where c: "connections s ?cid = Some c" "database c' = database c"
      unfolding extends_def by blast
    from u c have dlt: "database c < next_database_id s" by (simp add: unusable_def)
    with e have dlt': "database c < next_database_id s'" by (simp add: extends_def)
    show ?thesis
    proof (cases "databases s' (database c)")
      case None
      with Some c lt' dlt' show ?thesis by (simp add: unusable_def)
    next
      case d': (Some d')
      with e dlt obtain d where d: "databases s (database c) = Some d" "db_extends d d'"
        unfolding extends_def by blast
      from u c d have "doomed d p" by (simp add: unusable_def)
      then have "doomed d' p" using d(2) by (rule doomed_extends)
      with Some c d' lt' dlt' show ?thesis by (simp add: unusable_def)
    qed
  qed
qed

lemma db_extends_invalidate:
  "db_extends d (d\<lparr>entries := Catalog_Invalidate t (entries d), rolled_back := rolled_back d @ ts\<rparr>)"
  by (simp add: db_extends_def Catalog_Invalidate_def)

lemma db_extends_commit: "db_extends d (d\<lparr>entries := Catalog_Commit t (entries d)\<rparr>)"
  by (simp add: db_extends_def Catalog_Commit_def)

lemma db_extends_append: "db_extends d (d\<lparr>entries := entries d @ es, next_transaction_id := n\<rparr>)"
  by (simp add: db_extends_def nth_append)

lemma db_extends_next: "db_extends d (d\<lparr>next_transaction_id := n\<rparr>)"
  by (simp add: db_extends_def)

lemma db_extends_grow: "db_extends d (d\<lparr>entries := entries d @ es\<rparr>)"
  by (simp add: db_extends_def nth_append)

lemmas db_extends_simps =
  db_extends_refl db_extends_invalidate db_extends_commit db_extends_append db_extends_grow db_extends_next

lemma extends_Attach: "extends s (snd (Attach s))"
  by (auto simp: Attach_def extends_def db_extends_refl)

lemma extends_Connect: "extends s (snd (Connect did s))"
  by (auto simp: Connect_def extends_def db_extends_refl split: option.splits)

lemma extends_Begin: "extends s (snd (Begin cid s))"
  by (auto simp: Begin_def extends_def db_extends_simps Let_def split: option.splits if_splits)

lemma extends_Commit: "extends s (snd (Commit persisted cid s))"
  by (auto simp: Commit_def extends_def db_extends_simps split: option.splits if_splits)

lemma extends_Rollback: "extends s (snd (Rollback cid s))"
  by (auto simp: Rollback_def extends_def db_extends_simps split: option.splits if_splits)

lemma extends_CreateEntry: "extends s (snd (CreateEntry cid nm k s))"
  by (auto simp: CreateEntry_def extends_def db_extends_simps Let_def split: option.splits if_splits)

lemma extends_Prepare: "extends s (snd (Prepare fe cid nm sql s))"
  by (auto simp: Prepare_def extends_def db_extends_simps Let_def split: option.splits if_splits sum.splits prod.splits)

lemma extends_open_implicit: "extends s (open_implicit_transaction cid s)"
  by (auto simp: open_implicit_transaction_def extends_def db_extends_simps split: option.splits if_splits)

lemma extends_Execute: "extends s (snd (Execute fe p args s))"
  by (simp add: Execute_def extends_refl extends_open_implicit split: option.splits)

lemma extends_ExecuteNamed: "extends s (snd (ExecuteNamed fe cid n args s))"
  by (simp add: ExecuteNamed_def extends_refl extends_Execute split: option.splits)

lemma extends_Release: "extends s (Release p s)"
  by (auto simp: Release_def extends_def db_extends_simps split: option.splits if_splits)

lemma extends_DestroyDatabase: "extends s (DestroyDatabase did s)"
  by (auto simp: DestroyDatabase_def extends_def db_extends_simps split: option.splits if_splits)

lemma extends_remove_connection: "extends s (s\<lparr>connections := (connections s)(cid := None)\<rparr>)"
  by (auto simp: extends_def db_extends_simps split: if_splits)

lemma extends_DestroyConnection: "extends s (DestroyConnection cid s)"
proof (cases "connections s cid")
  case None
  then show ?thesis by (simp add: DestroyConnection_def extends_refl)
next
  case (Some c)
  show ?thesis
  proof (cases "current_transaction c")
    case None
    with Some show ?thesis by (simp add: DestroyConnection_def extends_remove_connection)
  next
    case t: (Some t)
    have "extends (snd (Rollback cid s)) (DestroyConnection cid s)"
      using Some t by (simp add: DestroyConnection_def Let_def extends_remove_connection)
    with extends_Rollback show ?thesis by (rule extends_trans)
  qed
qed

lemma extends_step: "extends s (step fe s op)"
  by (cases op)
    (simp_all add: extends_Attach extends_Connect extends_Begin extends_Commit extends_Rollback
      extends_CreateEntry extends_Prepare extends_Execute extends_ExecuteNamed extends_Release
      extends_DestroyConnection extends_DestroyDatabase)

lemma extends_run: "extends s (run_operations fe ops s)"
  unfolding run_operations_def
proof (induction ops arbitrary: s)
  case Nil
  show ?case by (simp add: extends_refl)
next
  case (Cons op ops)
  have "extends s (step fe s op)" by (rule extends_step)
  moreover have "extends (step fe s op) (foldl (step fe) (step fe s op) ops)" by (rule Cons.IH)
  ultimately show ?case by (simp add: extends_trans)
qed

lemma ids_allocated_initial: "ids_allocated initial_system"
  by (simp add: ids_allocated_def initial_system_def)

lemma ids_Attach: "ids_allocated s \<Longrightarrow> ids_allocated (snd (Attach s))"
  unfolding ids_allocated_def Attach_def by (auto simp: less_Suc_eq split: if_splits)

lemma ids_Connect: "ids_allocated s \<Longrightarrow> ids_allocated (snd (Connect did s))"
  unfolding ids_allocated_def Connect_def
  by (auto simp: less_Suc_eq split: if_splits option.splits)

lemma ids_Begin: "ids_allocated s \<Longrightarrow> ids_allocated (snd (Begin cid s))"
  unfolding ids_allocated_def Begin_def
  by (auto simp: Let_def split: if_splits option.splits)

lemma ids_Commit: "ids_allocated s \<Longrightarrow> ids_allocated (snd (Commit persisted cid s))"
  unfolding ids_allocated_def Commit_def
  by (auto split: if_splits option.splits)

lemma ids_Rollback: "ids_allocated s \<Longrightarrow> ids_allocated (snd (Rollback cid s))"
  unfolding ids_allocated_def Rollback_def
  by (auto split: if_splits option.splits)

lemma ids_CreateEntry: "ids_allocated s \<Longrightarrow> ids_allocated (snd (CreateEntry cid nm k s))"
  unfolding ids_allocated_def CreateEntry_def
  by (auto simp: Let_def split: if_splits option.splits)

lemma ids_Prepare: "ids_allocated s \<Longrightarrow> ids_allocated (snd (Prepare fe cid nm sql s))"
  unfolding ids_allocated_def Prepare_def
  by (auto simp: Let_def split: if_splits option.splits sum.splits prod.splits)

lemma ids_open_implicit: "ids_allocated s \<Longrightarrow> ids_allocated (open_implicit_transaction cid s)"
  unfolding ids_allocated_def open_implicit_transaction_def
  by (auto split: if_splits option.splits)

lemma ids_Execute: "ids_allocated s \<Longrightarrow> ids_allocated (snd (Execute fe p args s))"
  by (simp add: Execute_def ids_open_implicit split: option.splits)

lemma ids_ExecuteNamed: "ids_allocated s \<Longrightarrow> ids_allocated (snd (ExecuteNamed fe cid n args s))"
  by (simp add: ExecuteNamed_def ids_Execute split: option.splits)

lemma ids_Release: "ids_allocated s \<Longrightarrow> ids_allocated (Release p s)"
  unfolding ids_allocated_def Release_def
  by (auto split: if_splits option.splits)

lemma ids_DestroyDatabase: "ids_allocated s \<Longrightarrow> ids_allocated (DestroyDatabase did s)"
  unfolding ids_allocated_def DestroyDatabase_def
  by (auto split: if_splits)

lemma ids_remove_connection:
  "ids_allocated s \<Longrightarrow> ids_allocated (s\<lparr>connections := (connections s)(cid := None)\<rparr>)"
  unfolding ids_allocated_def by (auto split: if_splits)

lemma ids_DestroyConnection: "ids_allocated s \<Longrightarrow> ids_allocated (DestroyConnection cid s)"
  by (simp add: DestroyConnection_def Let_def ids_remove_connection ids_Rollback
      split: option.splits)

lemma ids_step: "ids_allocated s \<Longrightarrow> ids_allocated (step fe s op)"
  by (cases op)
    (simp_all add: ids_Attach ids_Connect ids_Begin ids_Commit ids_Rollback
      ids_CreateEntry ids_Prepare ids_Execute ids_ExecuteNamed ids_Release
      ids_DestroyConnection ids_DestroyDatabase)

lemma ids_run: "ids_allocated s \<Longrightarrow> ids_allocated (run_operations fe ops s)"
  unfolding run_operations_def
  by (induction ops arbitrary: s) (simp_all add: ids_step)

lemma ids_reachable: "ids_allocated (run_operations fe ops initial_system)"
  by (simp add: ids_run ids_allocated_initial)

lemma unusable_not_valid: "unusable s p \<Longrightarrow> \<not> valid s p"
  by (auto simp: unusable_def doomed_def valid_def entry_usable_def list_ex_iff list_all_iff
      split: option.splits)

lemma unusable_rejected: "unusable s p \<Longrightarrow> rejected fe p args s"
  by (auto simp: rejected_def Execute_def dest: unusable_not_valid split: option.splits)



lemma unusable_after_Rollback:
  assumes "ids_allocated s" "connections s (owning_connection p) = Some c"
    and "current_transaction c = Some t" "databases s (database c) = Some d"
    and "creation_transaction_id p = Some (tx_id t)"
  shows "unusable (snd (Rollback (owning_connection p) s)) p"
proof -
  have lt: "owning_connection p < next_connection_id s" "database c < next_database_id s"
    using assms(1,2) by (auto simp: ids_allocated_def)
  show ?thesis
    using assms lt
    by (simp add: unusable_def Rollback_def doomed_def creation_rolled_back_def)
qed

lemma unusable_failed_statement:
  "\<not> success p \<Longrightarrow> isl (fst (Execute fe p args s)) \<and> snd (Execute fe p args s) = s"
  by (simp add: Execute_def)

lemma rejected_fails:
  "rejected fe p args s \<Longrightarrow> isl (fst (Execute fe p args s)) \<and> snd (Execute fe p args s) = s"
  by (simp add: rejected_def)

lemma rejected_same_error:
  "rejected fe p args s \<Longrightarrow> rejected fe p args s' \<Longrightarrow>
     fst (Execute fe p args s) = fst (Execute fe p args s')"
  by (simp add: rejected_def)

subsection \<open>Evaluation of the test scenarios\<close>

lemmas op_defs =
  run_operations_def initial_system_def Attach_def Connect_def Begin_def Commit_def Rollback_def
  CreateEntry_def Prepare_def compile_def Execute_def ExecuteNamed_def Release_def
  DestroyConnection_def DestroyDatabase_def open_implicit_transaction_def valid_def
  creation_rolled_back_def
  entry_usable_def cast_arguments_def failed_statement_def bind_def Catalog_Resolve_def
  Catalog_Invalidate_def Catalog_Commit_def visible_def multiple_statements_def
  test_frontend_def test_parse_def sql_add_def sql_count_def sql_typo_def sql_two_def Let_def

lemmas test_defs =
  s_connected_def p_add_def p_typo_def s_table_def p_count_def s_table_in_transaction_def
  p_count_in_transaction_def s_table_before_transaction_def p_count_base_def

subsection \<open>Execute after the owner is gone\<close>




subsection \<open>Execute after a rollback\<close>

lemma Prepare_owner: "owning_connection (fst (Prepare fe cid nm sql s)) = cid"
  by (simp add: Prepare_def failed_statement_def Let_def
      split: sum.splits prod.splits option.splits)

lemma Prepare_while_active:
  assumes "connections s cid = Some c" and "current_transaction c = Some t"
  shows "\<not> success (fst (Prepare fe cid nm sql s)) \<or>
         creation_transaction_id (fst (Prepare fe cid nm sql s)) = Some (tx_id t)"
  using assms
  by (simp add: Prepare_def failed_statement_def Let_def split: sum.splits prod.splits)

lemma Execute_failed_anywhere:
  "\<not> success p \<Longrightarrow> fst (Execute fe p args s) = fst (Execute fe p args s')"
  by (simp add: Execute_def)

text \<open>
  C2: let \<open>p\<close> be prepared on a connection while its transaction \<open>t0\<close> is Active, in a
  state reached by client calls, and let that transaction be rolled back after any further
  client calls that leave it the current one. Then the rollback succeeds, and after it every
  Execute of \<open>p\<close>, with any arguments and after any further client calls (further Executes
  among them), fails, leaves the state unchanged and gives the error it gave right after the
  rollback.
\<close>

theorem execute_after_rollback:
  assumes "s0 = run_operations fe history initial_system"
    and "connections s0 cid = Some c0"
    and "current_transaction c0 = Some t0"
    and "p = fst (Prepare fe cid nm sql s0)"
    and "s = run_operations fe between (snd (Prepare fe cid nm sql s0))"
    and "connections s cid = Some c"
    and "current_transaction c = Some t"
    and "tx_id t = tx_id t0"
    and "databases s (database c) = Some d"
    and "s' = run_operations fe later (snd (Rollback cid s))"
  shows "fst (Rollback cid s) = Inr (t\<lparr>status := RolledBack\<rparr>) \<and>
         isl (fst (Execute fe p args s')) \<and>
         snd (Execute fe p args s') = s' \<and>
         fst (Execute fe p args s') = fst (Execute fe p args (snd (Rollback cid s)))"
proof -
  have rb: "fst (Rollback cid s) = Inr (t\<lparr>status := RolledBack\<rparr>)"
    using assms(6,7,9) by (simp add: Rollback_def)
  have own: "owning_connection p = cid" using assms(4) by (simp add: Prepare_owner)
  have created: "\<not> success p \<or> creation_transaction_id p = Some (tx_id t0)"
    using Prepare_while_active[OF assms(2,3)] assms(4) by simp
  then have "isl (fst (Execute fe p args s')) \<and> snd (Execute fe p args s') = s' \<and>
         fst (Execute fe p args s') = fst (Execute fe p args (snd (Rollback cid s)))"
  proof
    assume "\<not> success p"
    then show ?thesis
      using unusable_failed_statement[of p fe args s']
        Execute_failed_anywhere[of p fe args s' "snd (Rollback cid s)"]
      by simp
  next
    assume cr: "creation_transaction_id p = Some (tx_id t0)"
    have "ids_allocated s0" using assms(1) by (simp add: ids_reachable)
    then have ids: "ids_allocated s" using assms(5) by (simp add: ids_Prepare ids_run)
    have cr': "creation_transaction_id p = Some (tx_id t)"
      using cr assms(8) by simp
    have "connections s (owning_connection p) = Some c"
      using assms(6) by (simp add: own)
    with ids have "unusable (snd (Rollback (owning_connection p) s)) p"
      using assms(7,9) cr' by (rule unusable_after_Rollback)
    then have u: "unusable (snd (Rollback cid s)) p" by (simp add: own)
    then have u': "unusable s' p"
      using assms(10) by (simp add: unusable_extends extends_run)
    from u u' show ?thesis
      using rejected_fails[OF unusable_rejected[OF u'], of fe args]
        rejected_same_error[OF unusable_rejected[OF u'] unusable_rejected[OF u], of fe args]
      by simp
  qed
  with rb show ?thesis by blast
qed

text \<open>
  The scenario of ``Test prepared statements and transactions'': inside a transaction the
  table is created and the statement prepared and run; after the rollback it fails, also
  when it is tried again. The same holds for a statement prepared inside a transaction over
  a table that was committed before.
\<close>

theorem execute_after_rollback_witness:
  "fst (Execute test_frontend p_count_in_transaction [IntegerValue 12]
     (snd (Prepare test_frontend 0 None sql_count s_table_in_transaction)))
     = Inr [[IntegerValue 12]] \<and>
   fst (Execute test_frontend p_count_in_transaction [IntegerValue 12]
     (run_operations test_frontend [Op_Execute p_count_in_transaction [IntegerValue 12]]
       (snd (Rollback 0
         (run_operations test_frontend [Op_Execute p_count_in_transaction [IntegerValue 12]]
           (snd (Prepare test_frontend 0 None sql_count s_table_in_transaction)))))))
     = Inl InvalidatedStatementError \<and>
   fst (Execute test_frontend p_count_base [IntegerValue 12]
     (snd (Prepare test_frontend 0 None sql_count s_table_before_transaction)))
     = Inr [[IntegerValue 12]] \<and>
   fst (Execute test_frontend p_count_base [IntegerValue 12]
     (run_operations test_frontend []
       (snd (Rollback 0
         (run_operations test_frontend []
           (snd (Prepare test_frontend 0 None sql_count s_table_before_transaction)))))))
     = Inl InvalidatedStatementError"
proof -
  let ?args = "[IntegerValue 12]"
  let ?h1 = "[Op_Attach, Op_Connect 0, Op_Begin 0, Op_CreateEntry 0 ''a'' TableEntry]"
  let ?p1 = p_count_in_transaction
  let ?b1 = "[Op_Execute ?p1 ?args]"
  let ?s1 = "run_operations test_frontend ?b1
               (snd (Prepare test_frontend 0 None sql_count s_table_in_transaction))"
  let ?h2 = "[Op_Attach, Op_Connect 0, Op_CreateEntry 0 ''a'' TableEntry, Op_Begin 0]"
  let ?p2 = p_count_base
  let ?s2 = "run_operations test_frontend []
               (snd (Prepare test_frontend 0 None sql_count s_table_before_transaction))"
  have c1: "connections s_table_in_transaction 0
              = Some (the (connections s_table_in_transaction 0))"
    "current_transaction (the (connections s_table_in_transaction 0))
              = Some (the (current_transaction (the (connections s_table_in_transaction 0))))"
    "connections ?s1 0 = Some (the (connections ?s1 0))"
    "current_transaction (the (connections ?s1 0))
              = Some (the (current_transaction (the (connections ?s1 0))))"
    "tx_id (the (current_transaction (the (connections ?s1 0))))
              = tx_id (the (current_transaction (the (connections s_table_in_transaction 0))))"
    "databases ?s1 (database (the (connections ?s1 0))) = Some (the (databases ?s1 0))"
    by (simp_all add: test_defs op_defs)
  have c2: "connections s_table_before_transaction 0
              = Some (the (connections s_table_before_transaction 0))"
    "current_transaction (the (connections s_table_before_transaction 0))
              = Some (the (current_transaction (the (connections s_table_before_transaction 0))))"
    "connections ?s2 0 = Some (the (connections ?s2 0))"
    "current_transaction (the (connections ?s2 0))
              = Some (the (current_transaction (the (connections ?s2 0))))"
    "tx_id (the (current_transaction (the (connections ?s2 0))))
              = tx_id (the (current_transaction (the (connections s_table_before_transaction 0))))"
    "databases ?s2 (database (the (connections ?s2 0))) = Some (the (databases ?s2 0))"
    by (simp_all add: test_defs op_defs)
  have before: "fst (Execute test_frontend ?p1 ?args
       (snd (Prepare test_frontend 0 None sql_count s_table_in_transaction))) = Inr [?args]"
    "fst (Execute test_frontend ?p2 ?args
       (snd (Prepare test_frontend 0 None sql_count s_table_before_transaction))) = Inr [?args]"
    by (simp_all add: test_defs op_defs)
  have after: "fst (Execute test_frontend ?p1 ?args (snd (Rollback 0 ?s1)))
       = Inl InvalidatedStatementError"
    "fst (Execute test_frontend ?p2 ?args (snd (Rollback 0 ?s2)))
       = Inl InvalidatedStatementError"
    by (simp_all add: test_defs op_defs)
  have r1: "fst (Execute test_frontend ?p1 ?args
       (run_operations test_frontend ?b1 (snd (Rollback 0 ?s1))))
       = fst (Execute test_frontend ?p1 ?args (snd (Rollback 0 ?s1)))"
    using execute_after_rollback[of s_table_in_transaction test_frontend ?h1 0 _ _ ?p1 None
        sql_count ?s1 ?b1 _ _ _ _ ?b1 ?args, OF _ c1(1,2) _ refl c1(3,4,5,6) refl]
    by (simp add: s_table_in_transaction_def p_count_in_transaction_def)
  have r2: "fst (Execute test_frontend ?p2 ?args
       (run_operations test_frontend [] (snd (Rollback 0 ?s2))))
       = fst (Execute test_frontend ?p2 ?args (snd (Rollback 0 ?s2)))"
    using execute_after_rollback[of s_table_before_transaction test_frontend ?h2 0 _ _ ?p2 None
        sql_count ?s2 "[]" _ _ _ _ "[]" ?args, OF _ c2(1,2) _ refl c2(3,4,5,6) refl]
    by (simp add: s_table_before_transaction_def p_count_base_def)
  from before after r1 r2 show ?thesis by simp
qed

subsection \<open>A Prepare that fails\<close>

lemma Execute_failed_statement:
  "\<not> success p \<Longrightarrow> error p = Some msg \<Longrightarrow>
     Execute fe p args s = (Inl (ParseOrBindError msg), s)"
  by (simp add: Execute_def)

lemma compile_failure_cases:
  assumes "multiple_statements sql \<or> isl (parse fe sql) \<or>
     (\<exists>q c d. parse fe sql = Inr q \<and> connections s cid = Some c \<and>
        databases s (database c) = Some d \<and>
        bind (entries d) (map_option tx_id (current_transaction c)) (referenced q) = None)"
  shows "isl (compile fe cid sql s)"
  using assms by (auto simp: compile_def isl_def split: sum.splits option.splits)

text \<open>
  C5: when the SQL text holds more than one statement, does not parse, or does not bind,
  Prepare returns a statement with \<open>success = false\<close> and an error message and leaves
  the state unchanged, and every Execute of that statement, with any arguments, in any state
  and with any parser at hand, fails with that message and leaves the state unchanged.
\<close>

theorem prepare_failure_captured:
  assumes "multiple_statements sql \<or> isl (parse fe sql) \<or>
     (\<exists>q c d. parse fe sql = Inr q \<and> connections s cid = Some c \<and>
        databases s (database c) = Some d \<and>
        bind (entries d) (map_option tx_id (current_transaction c)) (referenced q) = None)"
  shows "success (fst (Prepare fe cid nm sql s)) = False \<and>
         snd (Prepare fe cid nm sql s) = s \<and>
         (\<exists>msg. error (fst (Prepare fe cid nm sql s)) = Some msg \<and>
            (\<forall>fe' args s'. Execute fe' (fst (Prepare fe cid nm sql s)) args s' =
                (Inl (ParseOrBindError msg), s')))"
proof -
  from compile_failure_cases[OF assms] obtain msg where m: "compile fe cid sql s = Inl msg"
    by (auto simp: isl_def)
  have p: "Prepare fe cid nm sql s = (failed_statement cid nm sql msg, s)"
    using m by (simp add: Prepare_def)
  have f: "success (failed_statement cid nm sql msg) = False"
    "error (failed_statement cid nm sql msg) = Some msg"
    by (simp_all add: failed_statement_def)
  have "\<forall>fe' args s'. Execute fe' (failed_statement cid nm sql msg) args s' =
                (Inl (ParseOrBindError msg), s')"
    using f by (simp add: Execute_failed_statement)
  with p f show ?thesis by simp
qed

text \<open>
  The scenario of ``Test incorrect usage of prepared statements API'': a parse error and two
  statements at once.
\<close>

theorem prepare_failure_captured_witness:
  "isl (parse test_frontend sql_typo) \<and> multiple_statements sql_two \<and>
   success p_typo = False \<and> error p_typo = Some ''syntax error'' \<and>
   Execute test_frontend p_typo [IntegerValue 12] s_connected =
     (Inl (ParseOrBindError ''syntax error''), s_connected) \<and>
   success (fst (Prepare test_frontend 0 None sql_two s_table)) = False \<and>
   fst (Execute test_frontend (fst (Prepare test_frontend 0 None sql_two s_table))
     [IntegerValue 12] s_table) =
     Inl (ParseOrBindError ''cannot prepare multiple statements at once'')"
proof -
  have a: "isl (parse test_frontend sql_typo)" "multiple_statements sql_two"
    by (simp_all add: op_defs)
  have e1: "error p_typo = Some ''syntax error''"
    by (simp add: test_defs op_defs)
  have e2: "error (fst (Prepare test_frontend 0 None sql_two s_table)) =
      Some ''cannot prepare multiple statements at once''"
    by (simp add: test_defs op_defs)
  from a(1) have "multiple_statements sql_typo \<or> isl (parse test_frontend sql_typo) \<or>
     (\<exists>q c d. parse test_frontend sql_typo = Inr q \<and> connections s_connected 0 = Some c \<and>
        databases s_connected (database c) = Some d \<and>
        bind (entries d) (map_option tx_id (current_transaction c)) (referenced q) = None)"
    by simp
  from prepare_failure_captured[OF this, of None] e1
  have 1: "success p_typo = False \<and>
     Execute test_frontend p_typo [IntegerValue 12] s_connected =
       (Inl (ParseOrBindError ''syntax error''), s_connected)"
    by (auto simp: p_typo_def)
  from a(2) have "multiple_statements sql_two \<or> isl (parse test_frontend sql_two) \<or>
     (\<exists>q c d. parse test_frontend sql_two = Inr q \<and> connections s_table 0 = Some c \<and>
        databases s_table (database c) = Some d \<and>
        bind (entries d) (map_option tx_id (current_transaction c)) (referenced q) = None)"
    by simp
  from prepare_failure_captured[OF this, of None] e2
  have 2: "success (fst (Prepare test_frontend 0 None sql_two s_table)) = False \<and>
     fst (Execute test_frontend (fst (Prepare test_frontend 0 None sql_two s_table))
       [IntegerValue 12] s_table) =
     Inl (ParseOrBindError ''cannot prepare multiple statements at once'')"
    by auto
  from a e1 1 2 show ?thesis by simp
qed

subsection \<open>The argument count\<close>

text \<open>
  C6, as the model has it: for a successfully prepared statement and an argument list whose
  length differs from \<open>parameter_count\<close>, Execute fails with the parameter-count error
  and returns the state unchanged, whatever the state is: nothing of it is consulted.
\<close>

theorem wrong_argument_count:
  assumes "success p" and "length args \<noteq> parameter_count p"
  shows "Execute fe p args s = (Inl (ParameterError WrongArity), s)"
  using assms by (simp add: Execute_def)

theorem wrong_argument_count_witness:
  "success p_count \<and> parameter_count p_count = 1 \<and>
   Execute test_frontend p_count [] s_table = (Inl (ParameterError WrongArity), s_table) \<and>
   Execute test_frontend p_count [IntegerValue 11, IntegerValue 13] s_table =
     (Inl (ParameterError WrongArity), s_table)"
proof -
  have ok: "success p_count" "parameter_count p_count = 1"
    by (simp_all add: test_defs op_defs)
  from wrong_argument_count[OF ok(1), of "[]" test_frontend s_table]
    wrong_argument_count[OF ok(1), of "[IntegerValue 11, IntegerValue 13]" test_frontend s_table]
    ok show ?thesis by simp
qed

text \<open>
  C6 as stated fails for a statement whose Prepare failed: Execute repeats the captured
  error, whatever the number of arguments.
\<close>

theorem wrong_argument_count_counterexample:
  "length [IntegerValue 12] \<noteq> parameter_count p_typo \<and>
   fst (Execute test_frontend p_typo [IntegerValue 12] s_connected) =
     Inl (ParseOrBindError ''syntax error'') \<and>
   fst (Execute test_frontend p_typo [IntegerValue 12] s_connected) \<noteq>
     Inl (ParameterError WrongArity)"
  by (simp add: test_defs op_defs)

subsection \<open>Named execution\<close>

text \<open>
  C7: EXECUTE by name runs the statement that the registry of the connection holds under
  that name, and fails with the not-found error when it holds none. After the release of a
  statement its name is not found, and the failed call leaves the registry without it.
\<close>

theorem released_name_not_found:
  assumes "connections s (owning_connection p) = Some c" and "ps_name p = Some n"
  shows "(case owned_prepared_statements c n of
            None \<Rightarrow> ExecuteNamed fe (owning_connection p) n args s = (Inl NotFoundError, s)
          | Some q \<Rightarrow> ExecuteNamed fe (owning_connection p) n args s = Execute fe q args s) \<and>
         ExecuteNamed fe (owning_connection p) n args (Release p s) =
           (Inl NotFoundError, Release p s) \<and>
         (\<exists>c'. connections (Release p s) (owning_connection p) = Some c' \<and>
               owned_prepared_statements c' n = None)"
  using assms by (simp add: ExecuteNamed_def Release_def split: option.splits)

text \<open>
  The scenario of ``Test prepared statements API'': EXECUTE by name runs, and fails once the
  statement is destroyed.
\<close>

theorem released_name_not_found_witness:
  "ps_name p_count = Some (Generated 0) \<and>
   fst (ExecuteNamed test_frontend 0 (Generated 0) [IntegerValue 12]
     (snd (Prepare test_frontend 0 None sql_count s_table))) = Inr [[IntegerValue 12]] \<and>
   fst (ExecuteNamed test_frontend 0 (Generated 0) [IntegerValue 12]
     (Release p_count (snd (Prepare test_frontend 0 None sql_count s_table)))) = Inl NotFoundError"
proof -
  let ?s = "snd (Prepare test_frontend 0 None sql_count s_table)"
  have own: "owning_connection p_count = 0" by (simp add: test_defs op_defs)
  have c: "connections ?s (owning_connection p_count) = Some (the (connections ?s 0))"
    by (simp add: test_defs op_defs)
  have n: "ps_name p_count = Some (Generated 0)" by (simp add: test_defs op_defs)
  have first: "fst (ExecuteNamed test_frontend 0 (Generated 0) [IntegerValue 12] ?s) =
      Inr [[IntegerValue 12]]"
    by (simp add: test_defs op_defs)
  from released_name_not_found[OF c n, of test_frontend "[IntegerValue 12]"] own n first
  show ?thesis by simp
qed

end
